theory Spec2Isabelle
  imports Main "HOL-Library.Multiset"
begin

section \<open>CulinaryChronicler: the notebook's functions\<close>

text \<open>
  The repository is one notebook, \<^verbatim>\<open>CulinaryChronicler.ipynb\<close>. Its cells define nine
  small functions that configure and sequence calls into third-party libraries
  (chromadb, llama_index, pickle). Seven of them are embedded below, cell by cell
  (\<^verbatim>\<open>initialize_models\<close> and \<^verbatim>\<open>load_cookbook_data\<close> only call a library). What a
  library call does to the world (the file system, the Chroma database, the agent object)
  is written as explicit state passing; what a library or the machine decides outside the
  notebook (the PDF parser, whether a file can be written, which collection names chromadb
  accepts, the agent's \<^verbatim>\<open>chat\<close> method) is a parameter of the function that meets it.
\<close>

subsection \<open>Cell 3: loading the dictionary documents\<close>

text \<open>
  The exceptions that can leave \<^verbatim>\<open>load_dictionary_data\<close>: the two it raises itself
  (\<^verbatim>\<open>FileNotFoundError\<close>, \<^verbatim>\<open>ValueError\<close>), \<^verbatim>\<open>NameError\<close> for a global name that is
  not bound, those of \<^verbatim>\<open>open\<close> and \<^verbatim>\<open>pickle.load\<close>, and one constructor for whatever
  else a library raises.
\<close>

datatype py_error =
    FileNotFoundError
  | ValueError
  | NameError
  | EOFError
  | UnpicklingError
  | IsADirectoryError
  | PermissionError
  | OtherError string

text \<open>
  What a path of the file system holds: a pickled list of documents, an empty or truncated
  file, a file that is no pickle (a PDF, say), a directory, or a file that may not be
  read. The file system maps a path to what is stored there;
  \<^verbatim>\<open>os.path.exists(p)\<close> is \<open>fs p \<noteq> None\<close>.
\<close>

datatype 'd file_content =
    Pickled "'d list"
  | Truncated
  | NotAPickle
  | Directory
  | Unreadable

type_synonym 'd filesystem = "string \<rightharpoonup> 'd file_content"

text \<open>
  \<^verbatim>\<open>with open(path, "rb") as fp: return pickle.load(fp)\<close> on a path that exists:
  \<^verbatim>\<open>open\<close> raises on a directory or an unreadable file, \<^verbatim>\<open>pickle.load\<close> raises
  \<^verbatim>\<open>EOFError\<close> on an empty or truncated file and \<^verbatim>\<open>UnpicklingError\<close> on other content.
\<close>

definition pickle_load :: "'d file_content \<Rightarrow> py_error + 'd list" where
  "pickle_load c =
     (case c of
        Pickled docs \<Rightarrow> Inr docs
      | Truncated \<Rightarrow> Inl EOFError
      | NotAPickle \<Rightarrow> Inl UnpicklingError
      | Directory \<Rightarrow> Inl IsADirectoryError
      | Unreadable \<Rightarrow> Inl PermissionError)"

text \<open>
  What \<^verbatim>\<open>load_dictionary_data\<close> meets outside its arguments and the stored files:
  \<^item> \<open>llama_parse\<close>: the global name \<^verbatim>\<open>LlamaParse\<close>, looked up when the parse branch
    runs. \<open>None\<close> when the name is not bound; otherwise the function that stands for
    \<^verbatim>\<open>LlamaParse(api_key=key, result_type="markdown").load_data(pdf_path)\<close>, an external
    service that returns documents or raises.
  \<^item> \<open>write_error\<close>: the exception \<^verbatim>\<open>open(path, "wb")\<close> raises for a path (a missing
    directory, no permission), \<open>None\<close> when the file can be opened for writing.
  \<^item> \<open>dump_error\<close>: the exception \<^verbatim>\<open>pickle.dump\<close> raises for a list of documents,
    \<open>None\<close> when it can be pickled. The file is open by then, so it is left truncated.
\<close>

record 'd surroundings =
  llama_parse :: "(string \<Rightarrow> string \<Rightarrow> py_error + 'd list) option"
  write_error :: "string \<Rightarrow> py_error option"
  dump_error :: "'d list \<Rightarrow> py_error option"

text \<open>
  \<^verbatim>\<open>with open(pickle_path, "wb") as fp: pickle.dump(dictionary_docs, fp)\<close>: the error
  raised, if any, and the file system afterwards.
\<close>

definition pickle_dump ::
  "'d surroundings \<Rightarrow> string \<Rightarrow> 'd list \<Rightarrow> 'd filesystem \<Rightarrow> py_error option \<times> 'd filesystem" where
  "pickle_dump env path docs fs =
     (case write_error env path of
        Some e \<Rightarrow> (Some e, fs)
      | None \<Rightarrow>
          (case dump_error env docs of
             Some e \<Rightarrow> (Some e, fs(path \<mapsto> Truncated))
           | None \<Rightarrow> (None, fs(path \<mapsto> Pickled docs))))"

text \<open>
  \<^verbatim>\<open>load_dictionary_data(pickle_path, pdf_path, use_pickle=True, llama_cloud_api_key=None)\<close>.
  The test \<^verbatim>\<open>if not llama_cloud_api_key\<close> holds for \<^verbatim>\<open>None\<close> and for the empty string.
  The function returns its result together with the file system it leaves behind.
\<close>

definition load_dictionary_data ::
  "'d surroundings \<Rightarrow> 'd filesystem \<Rightarrow> string \<Rightarrow> string \<Rightarrow> bool \<Rightarrow> string option
     \<Rightarrow> (py_error + 'd list) \<times> 'd filesystem" where
  "load_dictionary_data env fs pickle_path pdf_path use_pickle llama_cloud_api_key =
     (if use_pickle then
        (case fs pickle_path of
           None \<Rightarrow> (Inl FileNotFoundError, fs)
         | Some c \<Rightarrow> (pickle_load c, fs))
      else
        (case llama_cloud_api_key of
           None \<Rightarrow> (Inl ValueError, fs)
         | Some key \<Rightarrow>
             if key = [] then (Inl ValueError, fs)
             else if fs pdf_path = None then (Inl FileNotFoundError, fs)
             else
               (case llama_parse env of
                  None \<Rightarrow> (Inl NameError, fs)
                | Some parse \<Rightarrow>
                    (case parse key pdf_path of
                       Inl e \<Rightarrow> (Inl e, fs)
                     | Inr dictionary_docs \<Rightarrow>
                         (case pickle_dump env pickle_path dictionary_docs fs of
                            (Some e, fs') \<Rightarrow> (Inl e, fs')
                          | (None, fs') \<Rightarrow> (Inr dictionary_docs, fs'))))))"

text \<open>
  The notebook as it stands: its import cell does not bind \<^verbatim>\<open>LlamaParse\<close>, and no other
  cell does. The files it writes are taken to be writable.
\<close>

definition notebook_surroundings :: "'d surroundings" where
  "notebook_surroundings =
     \<lparr> llama_parse = None, write_error = (\<lambda>_. None), dump_error = (\<lambda>_. None) \<rparr>"

text \<open>
  A notebook to which the import of \<^verbatim>\<open>LlamaParse\<close> has been added, with a parser that
  returns one document for every PDF.
\<close>

definition repaired_surroundings :: "string surroundings" where
  "repaired_surroundings =
     \<lparr> llama_parse = Some (\<lambda>key path. Inr [''aloo: potato'']),
       write_error = (\<lambda>_. None), dump_error = (\<lambda>_. None) \<rparr>"

text \<open>The constants of the import cell and the call the notebook makes in cell 3.\<close>

definition DICTIONARY_PATH :: string where
  "DICTIONARY_PATH = ''data/dictionary-of-food.pdf''"

definition DICTIONARY_PICKLE_PATH :: string where
  "DICTIONARY_PICKLE_PATH = ''raw_dictionary_documents''"

definition CHROMA_DB_PATH :: string where
  "CHROMA_DB_PATH = ''local_db_ollama/''"

subsection \<open>Cell 4: the Chroma vector store and the two indices\<close>

text \<open>
  The state of the Chroma database that \<^verbatim>\<open>chromadb.PersistentClient(path=db_path)\<close>
  opens: its collections by name, each with its entries in insertion order. The notebook
  opens one database directory only; the state of any other directory is not part of the
  model. An entry stands for the nodes llama_index cuts from one document; the splitter and
  the embedding model are external and play no part in where an entry is stored.
\<close>

type_synonym 'c chroma = "string \<rightharpoonup> 'c list"

text \<open>
  What chromadb decides outside the notebook:
  \<^item> \<open>client_error\<close>: the exception \<^verbatim>\<open>PersistentClient(path=p)\<close> raises for a path (a
    directory that cannot be created or read), \<open>None\<close> when the database opens.
  \<^item> \<open>name_error\<close>: the exception chromadb raises for a collection name it does not
    accept, \<open>None\<close> for a name it accepts. The rule differs between releases of chromadb.
  \<^item> \<open>store_error\<close>: the exception raised when the open database cannot store a new
    collection (a read-only or full disk), \<open>None\<close> when it can.
\<close>

record chroma_rules =
  client_error :: "string \<Rightarrow> py_error option"
  name_error :: "string \<Rightarrow> py_error option"
  store_error :: "py_error option"

text \<open>
  A Python reference to a collection object: the client's path and the collection's name.
\<close>

record collection_ref =
  client_path :: string
  collection_name :: string

text \<open>
  \<^verbatim>\<open>db.get_or_create_collection(collection_name)\<close> on an open client: chromadb checks
  the name first and raises, creating nothing, when it does not accept it. Otherwise it
  returns the collection of that name when the database has one and creates an empty one
  when it has none, which raises only when the database cannot store it. It does not raise
  because the name is unknown.
\<close>

definition get_or_create_collection ::
  "chroma_rules \<Rightarrow> string \<Rightarrow> string \<Rightarrow> 'c chroma \<Rightarrow> (py_error + collection_ref) \<times> 'c chroma" where
  "get_or_create_collection rules db_path cname st =
     (case name_error rules cname of
        Some e \<Rightarrow> (Inl e, st)
      | None \<Rightarrow>
          (case st cname of
             Some _ \<Rightarrow> (Inr \<lparr> client_path = db_path, collection_name = cname \<rparr>, st)
           | None \<Rightarrow>
               (case store_error rules of
                  Some e \<Rightarrow> (Inl e, st)
                | None \<Rightarrow> (Inr \<lparr> client_path = db_path, collection_name = cname \<rparr>,
                           st(cname \<mapsto> [])))))"

text \<open>
  The wrappers \<^verbatim>\<open>ChromaVectorStore(chroma_collection=...)\<close>,
  \<^verbatim>\<open>StorageContext.from_defaults(vector_store=...)\<close> and the index object each hold the
  reference they were built from.
\<close>

datatype ChromaVectorStore = ChromaVectorStore (collection_of: collection_ref)

datatype StorageContext = StorageContext (store_of: ChromaVectorStore)

datatype VectorStoreIndex = VectorStoreIndex (context_of: StorageContext)

text \<open>
  \<^verbatim>\<open>create_vector_store(db_path, collection_name)\<close>; \<open>st\<close> is the state of the database
  at \<open>db_path\<close>. An exception of the client or of the lookup leaves the function.
\<close>

definition create_vector_store ::
  "chroma_rules \<Rightarrow> string \<Rightarrow> string \<Rightarrow> 'c chroma \<Rightarrow> (py_error + StorageContext) \<times> 'c chroma" where
  "create_vector_store rules db_path cname st =
     (case client_error rules db_path of
        Some e \<Rightarrow> (Inl e, st)
      | None \<Rightarrow>
          (case get_or_create_collection rules db_path cname st of
             (Inl e, st') \<Rightarrow> (Inl e, st')
           | (Inr chroma_collection, st') \<Rightarrow>
               (let vector_store = ChromaVectorStore chroma_collection
                in (Inr (StorageContext vector_store), st'))))"

text \<open>
  \<^verbatim>\<open>VectorStoreIndex.from_documents(documents, storage_context=storage_context)\<close> adds the
  documents' entries to the collection behind the storage context's vector store and
  returns an index over that store. A reference comes only from
  \<^verbatim>\<open>get_or_create_collection\<close> and the notebook deletes no collection, so the collection
  is there when entries are added; for a reference to a collection that is not there the
  model adds nothing.
\<close>

definition collection_add :: "collection_ref \<Rightarrow> 'c list \<Rightarrow> 'c chroma \<Rightarrow> 'c chroma" where
  "collection_add r added st =
     (case st (collection_name r) of
        None \<Rightarrow> st
      | Some es \<Rightarrow> st(collection_name r \<mapsto> es @ added))"

definition create_index ::
  "'c list \<Rightarrow> StorageContext \<Rightarrow> 'c chroma \<Rightarrow> VectorStoreIndex \<times> 'c chroma" where
  "create_index documents storage_context st =
     (VectorStoreIndex storage_context,
      collection_add (collection_of (store_of storage_context)) documents st)"

text \<open>
  The three module-level statements of cell 4:
  \<^verbatim>\<open>storage_context = create_vector_store(CHROMA_DB_PATH, "dictionary_food")\<close>,
  \<^verbatim>\<open>cookbook_index = create_index(cookbook_docs, storage_context)\<close>,
  \<^verbatim>\<open>dictionary_index = create_index(dictionary_docs, storage_context)\<close>.
  An exception of the first statement ends the cell.
\<close>

definition cell4_indices ::
  "chroma_rules \<Rightarrow> 'c list \<Rightarrow> 'c list \<Rightarrow> 'c chroma
     \<Rightarrow> (py_error + VectorStoreIndex \<times> VectorStoreIndex) \<times> 'c chroma" where
  "cell4_indices rules cookbook_docs dictionary_docs st =
     (case create_vector_store rules CHROMA_DB_PATH ''dictionary_food'' st of
        (Inl e, st1) \<Rightarrow> (Inl e, st1)
      | (Inr storage_context, st1) \<Rightarrow>
          (let (cookbook_index, st2) = create_index cookbook_docs storage_context st1;
               (dictionary_index, st3) = create_index dictionary_docs storage_context st2
           in (Inr (cookbook_index, dictionary_index), st3)))"

text \<open>
  What a query engine made from an index searches: the entries of the collection behind
  the index's vector store. The index keeps no entry list of its own.
\<close>

definition searched_entries :: "VectorStoreIndex \<Rightarrow> 'c chroma \<Rightarrow> 'c list" where
  "searched_entries index st =
     (let r = collection_of (store_of (context_of index))
      in case st (collection_name r) of None \<Rightarrow> [] | Some es \<Rightarrow> es)"

text \<open>A database in which no collection has been created yet.\<close>

definition no_collections :: "'c chroma" where
  "no_collections = Map.empty"

text \<open>
  The name rule that chromadb 0.4 and 0.5 state in their error message: a collection name
  (1) has 3 to 63 characters, (2) starts and ends with a letter or digit, (3) otherwise
  holds only letters, digits, periods, underscores and hyphens, (4) has no two periods in
  a row and (5) is not an IPv4 address, which chromadb checks as four groups of one to
  three digits separated by periods. A name against the rule raises \<^verbatim>\<open>ValueError\<close>.
\<close>

definition alphanumeric :: "char \<Rightarrow> bool" where
  "alphanumeric c =
     (c \<in> set ''abcdefghijklmnopqrstuvwxyzABCDEFGHIJKLMNOPQRSTUVWXYZ0123456789'')"

definition name_character :: "char \<Rightarrow> bool" where
  "name_character c = (alphanumeric c \<or> c \<in> set ''._-'')"

fun two_periods :: "string \<Rightarrow> bool" where
  "two_periods (a # b # cs) = ((a = CHR ''.'' \<and> b = CHR ''.'') \<or> two_periods (b # cs))"
| "two_periods _ = False"

fun groups :: "string \<Rightarrow> string list" where
  "groups [] = [[]]"
| "groups (c # cs) =
     (if c = CHR ''.'' then [] # groups cs
      else (case groups cs of [] \<Rightarrow> [[c]] | g # gs \<Rightarrow> (c # g) # gs))"

definition digit_group :: "string \<Rightarrow> bool" where
  "digit_group g = (1 \<le> length g \<and> length g \<le> 3 \<and> list_all (\<lambda>c. c \<in> set ''0123456789'') g)"

definition ipv4_shaped :: "string \<Rightarrow> bool" where
  "ipv4_shaped n = (length (groups n) = 4 \<and> list_all digit_group (groups n))"

definition name_rule :: "string \<Rightarrow> bool" where
  "name_rule n =
     (3 \<le> length n \<and> length n \<le> 63 \<and>
      alphanumeric (hd n) \<and> alphanumeric (last n) \<and> list_all name_character n \<and>
      \<not> two_periods n \<and> \<not> ipv4_shaped n)"

text \<open>
  A machine on which every database directory opens and can be written, and chromadb
  applies the rule above.
\<close>

definition local_chroma :: chroma_rules where
  "local_chroma =
     \<lparr> client_error = (\<lambda>_. None),
       name_error = (\<lambda>n. if name_rule n then None else Some ValueError),
       store_error = None \<rparr>"

subsection \<open>Cell 5: the query engines\<close>

text \<open>
  \<^verbatim>\<open>create_query_engine(index, similarity_top_k=3)\<close> returns
  \<^verbatim>\<open>index.as_query_engine(similarity_top_k=similarity_top_k)\<close>: an engine over that index
  with that retrieval breadth. An argument left out is \<open>None\<close> and takes the default 3.
\<close>

record QueryEngine =
  engine_index :: VectorStoreIndex
  similarity_top_k :: int

definition create_query_engine :: "VectorStoreIndex \<Rightarrow> int option \<Rightarrow> QueryEngine" where
  "create_query_engine index k =
     \<lparr> engine_index = index,
       similarity_top_k = (case k of None \<Rightarrow> 3 | Some n \<Rightarrow> n) \<rparr>"

subsection \<open>Cell 6: the tools and the agent's query\<close>

text \<open>
  \<^verbatim>\<open>ToolMetadata(name=..., description=...)\<close> and
  \<^verbatim>\<open>QueryEngineTool(query_engine=..., metadata=...)\<close> are plain data holders; the query
  engine is an opaque object of type \<open>'e\<close>.
\<close>

record ToolMetadata =
  name :: string
  description :: string

record 'e QueryEngineTool =
  query_engine :: 'e
  metadata :: ToolMetadata

definition create_query_engine_tools :: "'e \<Rightarrow> 'e \<Rightarrow> 'e QueryEngineTool list" where
  "create_query_engine_tools cookbook_engine dictionary_engine =
     [ \<lparr> query_engine = cookbook_engine,
         metadata = \<lparr> name = ''Food_Cookbook'',
           description = ''Provides a collection of 175 choice recipes from the Chicago Women's Club in 1887.'' \<rparr> \<rparr>,
       \<lparr> query_engine = dictionary_engine,
         metadata = \<lparr> name = ''Food_Dictionary'',
           description = ''Provides definitions of words related to English cuisine and food industry terms.'' \<rparr> \<rparr> ]"

text \<open>
  The module-level statements of cells 5 and 6 that lead from the two indices to the
  tools: \<^verbatim>\<open>cookbook_query_engine = create_query_engine(cookbook_index)\<close>,
  \<^verbatim>\<open>dictionary_query_engine = create_query_engine(dictionary_index)\<close>,
  \<^verbatim>\<open>query_engine_tools = create_query_engine_tools(cookbook_query_engine,
  dictionary_query_engine)\<close>.
\<close>

definition notebook_tools ::
  "VectorStoreIndex \<Rightarrow> VectorStoreIndex \<Rightarrow> QueryEngine QueryEngineTool list" where
  "notebook_tools cookbook_index dictionary_index =
     (let cookbook_query_engine = create_query_engine cookbook_index None;
          dictionary_query_engine = create_query_engine dictionary_index None
      in create_query_engine_tools cookbook_query_engine dictionary_query_engine)"

text \<open>
  \<^verbatim>\<open>create_agent(query_engine_tools)\<close> builds
  \<^verbatim>\<open>FunctionCallingAgentWorker.from_tools(query_engine_tools, verbose=False,
  allow_parallel_tool_calls=False)\<close> and wraps it in an \<^verbatim>\<open>AgentRunner\<close>. The worker is
  recorded as the arguments it was built from; what the worker does with them at run time
  is llama_index's and is not modelled.
\<close>

record 'e FunctionCallingAgentWorker =
  worker_tools :: "'e QueryEngineTool list"
  verbose :: bool
  allow_parallel_tool_calls :: bool

datatype 'e AgentRunner = AgentRunner (worker_of: "'e FunctionCallingAgentWorker")

definition create_agent :: "'e QueryEngineTool list \<Rightarrow> 'e AgentRunner" where
  "create_agent query_engine_tools =
     (let agent_worker = \<lparr> worker_tools = query_engine_tools, verbose = False,
                            allow_parallel_tool_calls = False \<rparr>
      in AgentRunner agent_worker)"

text \<open>
  Cell 7, \<^verbatim>\<open>query_agent(agent, query)\<close>, is \<^verbatim>\<open>return agent.chat(query)\<close>. The method
  \<^verbatim>\<open>chat\<close> belongs to llama_index's \<^verbatim>\<open>AgentRunner\<close>; it is the parameter \<open>chat\<close>. It may
  change the agent object (its chat memory) and may raise, so it maps the agent and the
  query to an outcome of any type \<open>'r\<close> (an answer or an error) and the agent afterwards.
\<close>

definition query_agent :: "('a \<Rightarrow> string \<Rightarrow> 'r \<times> 'a) \<Rightarrow> 'a \<Rightarrow> string \<Rightarrow> 'r \<times> 'a" where
  "query_agent chat agent query = chat agent query"

section \<open>The vector index the specification describes\<close>

text \<open>
  The notebook has no vector index of its own: storing and ranking entries is chromadb's
  work, reached through llama_index. The specification describes the index an implementer
  would write in their place (its section 4.1). The definitions of this section follow
  that description, not code of the repository.
\<close>

text \<open>
  Modelled from the spec: the error taxonomy of section 7, which the repository does not
  define (\<^verbatim>\<open>NotFoundError\<close>, \<^verbatim>\<open>DuplicateNameError\<close>, \<^verbatim>\<open>EmbeddingUnavailableError\<close>,
  \<^verbatim>\<open>ToolExecutionError\<close>, \<^verbatim>\<open>TimeoutError\<close>).
\<close>

datatype core_error =
    NotFoundError
  | DuplicateNameError
  | EmbeddingUnavailableError
  | ToolExecutionError
  | TimeoutError

text \<open>
  Modelled from the spec: the Chunk of section 3, \<^verbatim>\<open>{id, document_id, text,
  embedding_vector}\<close>, which the repository does not define. \<^verbatim>\<open>upsert\<close> receives the vector
  apart from the chunk, so a stored entry is the pair of the chunk's other fields and its
  vector. A collection is the list of its entries in insertion order, and the index maps a
  collection's name to it.
\<close>

record chunk =
  chunk_id :: string
  document_id :: string
  chunk_text :: string

type_synonym 'v vector_index = "string \<rightharpoonup> (chunk \<times> 'v) list"

text \<open>
  Modelled from the spec: the entries a collection of the index holds (section 3,
  Collection); a name the index does not know holds none.
\<close>

definition entries :: "'v vector_index \<Rightarrow> string \<Rightarrow> (chunk \<times> 'v) list" where
  "entries idx collection = (case idx collection of None \<Rightarrow> [] | Some es \<Rightarrow> es)"

text \<open>Modelled from the spec: the chunk ids of a collection's entries, in order.\<close>

definition ids :: "(chunk \<times> 'v) list \<Rightarrow> string list" where
  "ids es = map (\<lambda>e. chunk_id (fst e)) es"

text \<open>
  Modelled from the spec: \<^verbatim>\<open>upsert(collection, chunk, vector)\<close> of section 4.1, absent
  from the repository: append-only per chunk id, and a re-upsert of an id already stored
  replaces that entry's vector where it stands and adds nothing. The specification names no
  operation that creates a collection, so the first upsert under a name creates it.
\<close>

definition revector :: "string \<Rightarrow> 'v \<Rightarrow> chunk \<times> 'v \<Rightarrow> chunk \<times> 'v" where
  "revector i v e = (if chunk_id (fst e) = i then (fst e, v) else e)"

text \<open>
  Modelled from the spec: \<^verbatim>\<open>upsert\<close> itself, with \<open>revector\<close> the replacement of
  the vector of the entries that carry the id.
\<close>

definition upsert :: "string \<Rightarrow> chunk \<Rightarrow> 'v \<Rightarrow> 'v vector_index \<Rightarrow> 'v vector_index" where
  "upsert collection c v idx =
     (let es = entries idx collection
      in idx(collection \<mapsto>
           (if chunk_id c \<in> set (ids es)
            then map (revector (chunk_id c) v) es
            else es @ [(c, v)])))"

text \<open>
  Modelled from the spec: the order of a RetrievalResult (sections 3 and 4.1), absent from
  the repository: descending by similarity score, ties in original insertion order.
  \<open>place\<close> puts an entry in front of the first one whose score is not greater than its
  own; \<open>ranked\<close> places the entries from the last inserted to the first, so that of two
  entries with one score the earlier stays in front.
\<close>

fun place :: "'a \<times> 's::linorder \<Rightarrow> ('a \<times> 's) list \<Rightarrow> ('a \<times> 's) list" where
  "place x [] = [x]"
| "place x (y # ys) = (if snd y \<le> snd x then x # y # ys else y # place x ys)"

fun ranked :: "('a \<times> 's::linorder) list \<Rightarrow> ('a \<times> 's) list" where
  "ranked [] = []"
| "ranked (x # xs) = place x (ranked xs)"

text \<open>
  Modelled from the spec: \<^verbatim>\<open>search(collection, query_vector, k)\<close> of section 4.1, absent
  from the repository. It fails with \<^verbatim>\<open>NotFoundError\<close> for an unknown collection, scores
  every entry against the query vector, and returns the first \<open>k\<close> of the ranking, which
  is all of it when \<open>k\<close> exceeds the collection's size. The similarity metric (cosine
  similarity over the embedding provider's vectors) is the parameter \<open>similarity\<close>, with
  scores in any linear order. The contract asks for \<open>k \<ge> 1\<close> and says nothing of
  \<open>k = 0\<close>, where this definition returns the empty sequence.
\<close>

definition scored ::
  "('v \<Rightarrow> 'v \<Rightarrow> 's) \<Rightarrow> 'v \<Rightarrow> (chunk \<times> 'v) list \<Rightarrow> (chunk \<times> 's) list" where
  "scored similarity query_vector es =
     map (\<lambda>e. (fst e, similarity query_vector (snd e))) es"

text \<open>
  Modelled from the spec: \<^verbatim>\<open>search\<close> itself, over the scored entries of the collection.
\<close>

definition search ::
  "('v \<Rightarrow> 'v \<Rightarrow> 's::linorder) \<Rightarrow> string \<Rightarrow> 'v \<Rightarrow> nat \<Rightarrow> 'v vector_index
     \<Rightarrow> core_error + (chunk \<times> 's) list" where
  "search similarity collection query_vector k idx =
     (case idx collection of
        None \<Rightarrow> Inl NotFoundError
      | Some es \<Rightarrow> Inr (take k (ranked (scored similarity query_vector es))))"

text \<open>A sequence of (chunk, score) pairs is descending when no score is followed by a greater one.\<close>

definition descending :: "('a \<times> 's::linorder) list \<Rightarrow> bool" where
  "descending r = sorted_wrt (\<lambda>a b. snd b \<le> snd a) r"

text \<open>
  The invariant of an index: within a collection no chunk id is stored twice. The empty
  index has it and \<open>upsert\<close> keeps it, so every index built by upserts has it.
\<close>

definition unique_ids :: "'v vector_index \<Rightarrow> bool" where
  "unique_ids idx = (\<forall>c. distinct (ids (entries idx c)))"

text \<open>
  Modelled from the spec: the ingestion phase of section 5, a sequence of upserts, each
  given as (collection, chunk, vector), applied in order.
\<close>

fun upsert_all :: "(string \<times> chunk \<times> 'v) list \<Rightarrow> 'v vector_index \<Rightarrow> 'v vector_index" where
  "upsert_all [] idx = idx"
| "upsert_all ((collection, c, v) # rest) idx = upsert_all rest (upsert collection c v idx)"

text \<open>The chunk of the specification's end-to-end scenario A, used in the examples below.\<close>

definition aloo_chunk :: chunk where
  "aloo_chunk = \<lparr> chunk_id = ''c1'', document_id = ''d1'',
     chunk_text = ''Aloo is a word for potato in South Asian cuisine'' \<rparr>"

text \<open>
  An example index over integer vectors of dimension one: the collection dictionary holds
  three chunks, inserted in the order c1, c2, c3. The example similarity is the negated
  distance, so that a closer vector scores higher.
\<close>

definition example_index :: "int vector_index" where
  "example_index =
     upsert ''dictionary'' (aloo_chunk\<lparr>chunk_id := ''c3''\<rparr>) 6
       (upsert ''dictionary'' (aloo_chunk\<lparr>chunk_id := ''c2''\<rparr>) 4
          (upsert ''dictionary'' aloo_chunk 1 Map.empty))"

definition closeness :: "int \<Rightarrow> int \<Rightarrow> int" where
  "closeness q v = - \<bar>q - v\<bar>"

section \<open>The notebook's functions: properties\<close>

subsection \<open>The tools and the agent\<close>

text \<open>
  C10. For every pair of query engines, \<^verbatim>\<open>create_query_engine_tools\<close> returns exactly two
  tools in a fixed order: the first is named Food_Cookbook and bound to the first engine,
  the second is named Food_Dictionary and bound to the second engine. The two names are
  constants and differ, whatever the engines are.
\<close>

theorem create_query_engine_tools_fixed_pair:
  "length (create_query_engine_tools ce de) = 2 \<and>
   map (\<lambda>t. name (metadata t)) (create_query_engine_tools ce de)
     = [''Food_Cookbook'', ''Food_Dictionary''] \<and>
   map query_engine (create_query_engine_tools ce de) = [ce, de] \<and>
   distinct (map (\<lambda>t. name (metadata t)) (create_query_engine_tools ce de))"
  by (simp add: create_query_engine_tools_def)

text \<open>
  The agent is always configured with \<^verbatim>\<open>allow_parallel_tool_calls=False\<close> and
  \<^verbatim>\<open>verbose=False\<close>, over exactly the tools it was given. How many tools the worker then
  invokes in a turn is decided inside llama_index.
\<close>

lemma create_agent_configuration:
  "allow_parallel_tool_calls (worker_of (create_agent ts)) = False \<and>
   verbose (worker_of (create_agent ts)) = False \<and>
   worker_tools (worker_of (create_agent ts)) = ts"
  by (simp add: create_agent_def)

text \<open>
  C9. For every agent and every query string, \<^verbatim>\<open>query_agent(agent, query)\<close> is a pure
  delegation: its outcome, and the state it leaves the agent in, are exactly those of the
  single call \<^verbatim>\<open>agent.chat(query)\<close> with the query text unchanged. It retries nothing,
  transforms nothing and keeps no state of its own.
\<close>

theorem query_agent_delegates:
  "query_agent chat agent query = chat agent query"
  by (simp add: query_agent_def)

text \<open>
  An agent whose \<open>chat\<close> logs each query it receives: after \<open>query_agent\<close> the log holds the
  query once, as it was passed.
\<close>

theorem query_agent_delegates_witness:
  "query_agent (\<lambda>log q. (''answer: '' @ q, log @ [q])) [] ''What is aloo?''
     = (''answer: What is aloo?'', [''What is aloo?''])"
  using query_agent_delegates
    [of "\<lambda>log q. (''answer: '' @ q, log @ [q])" "[]" "''What is aloo?''"]
  by simp

text \<open>
  \<open>query_agent\<close> handles no exception: an error raised by the agent's turn reaches the
  caller as it is, and is not turned into an answer.
\<close>

lemma query_agent_surfaces_error:
  "chat agent query = (Inl e, agent') \<Longrightarrow> query_agent chat agent query = (Inl e, agent')"
  by (simp add: query_agent_def)

subsection \<open>Loading the dictionary documents\<close>

text \<open>
  C3, as the specification states it: a miss of the pickle cache is not an error, loading
  falls back to parsing. The code does otherwise. In the call the notebook makes
  (\<^verbatim>\<open>use_pickle=True\<close>, no API key), with the PDF in place, a parser that is bound and
  would succeed, and no pickle file, \<^verbatim>\<open>load_dictionary_data\<close> raises
  \<^verbatim>\<open>FileNotFoundError\<close> and parses nothing.
\<close>

theorem pickle_miss_counterexample:
  "load_dictionary_data repaired_surroundings
       [DICTIONARY_PATH \<mapsto> NotAPickle] DICTIONARY_PICKLE_PATH DICTIONARY_PATH True None
     = (Inl FileNotFoundError, [DICTIONARY_PATH \<mapsto> NotAPickle])"
  by (simp add: load_dictionary_data_def DICTIONARY_PATH_def DICTIONARY_PICKLE_PATH_def)

text \<open>
  C3, amended. A miss of the pickle cache is an error. With \<^verbatim>\<open>use_pickle=True\<close> (the
  default, and the notebook's call), when the pickle file does not exist
  \<^verbatim>\<open>load_dictionary_data\<close> raises \<^verbatim>\<open>FileNotFoundError\<close>. It does not fall back to
  parsing: the outcome is the same whether or not a parser is bound and whatever it would
  return, for every PDF path and API key, and the file system is left as it was.
\<close>

theorem load_dictionary_data_pickle_miss:
  assumes "fs pickle_path = None"
  shows "load_dictionary_data env fs pickle_path pdf_path True key
           = (Inl FileNotFoundError, fs)"
  using assms by (simp add: load_dictionary_data_def)

text \<open>The notebook's own call, in the notebook as it stands, with the PDF in place.\<close>

theorem load_dictionary_data_pickle_miss_witness:
  "[DICTIONARY_PATH \<mapsto> (NotAPickle :: string file_content)] DICTIONARY_PICKLE_PATH = None \<and>
   load_dictionary_data notebook_surroundings
       [DICTIONARY_PATH \<mapsto> (NotAPickle :: string file_content)]
       DICTIONARY_PICKLE_PATH DICTIONARY_PATH True None
     = (Inl FileNotFoundError, [DICTIONARY_PATH \<mapsto> NotAPickle])"
proof -
  have miss: "[DICTIONARY_PATH \<mapsto> (NotAPickle :: string file_content)] DICTIONARY_PICKLE_PATH = None"
    by (simp add: DICTIONARY_PATH_def DICTIONARY_PICKLE_PATH_def)
  from load_dictionary_data_pickle_miss
    [of "[DICTIONARY_PATH \<mapsto> (NotAPickle :: string file_content)]" DICTIONARY_PICKLE_PATH
        notebook_surroundings DICTIONARY_PATH None] miss
  show ?thesis by simp
qed

text \<open>
  The other branches. A pickle that is there is returned without parsing. The parse path
  refuses a missing API key before it looks at the PDF. Where the name \<^verbatim>\<open>LlamaParse\<close> is
  not bound, as in the notebook as it stands, the parse path raises \<^verbatim>\<open>NameError\<close> once
  the key and the PDF have passed their checks, and writes nothing.
\<close>

lemma load_dictionary_data_pickle_hit:
  "fs pickle_path = Some (Pickled docs) \<Longrightarrow>
     load_dictionary_data env fs pickle_path pdf_path True key = (Inr docs, fs)"
  by (simp add: load_dictionary_data_def pickle_load_def)

lemma load_dictionary_data_no_key:
  "key = None \<or> key = Some [] \<Longrightarrow>
     load_dictionary_data env fs pickle_path pdf_path False key = (Inl ValueError, fs)"
  by (auto simp add: load_dictionary_data_def)

lemma load_dictionary_data_unbound_parser:
  "llama_parse env = None \<Longrightarrow> k \<noteq> [] \<Longrightarrow> fs pdf_path \<noteq> None \<Longrightarrow>
     load_dictionary_data env fs pickle_path pdf_path False (Some k) = (Inl NameError, fs)"
  by (simp add: load_dictionary_data_def)

subsection \<open>The vector store and the two indices\<close>

text \<open>The names the notebook and the specification use pass the name rule.\<close>

lemma name_rule_examples:
  "name_rule ''dictionary_food''" "name_rule ''cookbook''" "name_rule ''dictionary''"
  by (simp_all add: name_rule_def alphanumeric_def name_character_def ipv4_shaped_def)

lemma local_chroma_accepts:
  "name_error local_chroma ''dictionary_food'' = None"
  "name_error local_chroma ''cookbook'' = None"
  "client_error local_chroma p = None"
  "store_error local_chroma = None"
  by (simp_all add: local_chroma_def name_rule_examples)




text \<open>
  A name chromadb does not accept, a database that does not open, or one that cannot
  store the new collection, raises and creates nothing. A collection that exists is returned as it is, and nothing is created.
\<close>

lemma create_vector_store_refused_name:
  "client_error rules db_path = None \<Longrightarrow> name_error rules cname = Some e \<Longrightarrow>
     create_vector_store rules db_path cname st = (Inl e, st)"
  by (simp add: create_vector_store_def get_or_create_collection_def)

lemma create_vector_store_no_client:
  "client_error rules db_path = Some e \<Longrightarrow>
     create_vector_store rules db_path cname st = (Inl e, st)"
  by (simp add: create_vector_store_def)

lemma create_vector_store_no_room:
  "client_error rules db_path = None \<Longrightarrow> name_error rules cname = None \<Longrightarrow>
     st cname = None \<Longrightarrow> store_error rules = Some e \<Longrightarrow>
     create_vector_store rules db_path cname st = (Inl e, st)"
  by (simp add: create_vector_store_def get_or_create_collection_def)

lemma short_names_refused:
  "create_vector_store local_chroma CHROMA_DB_PATH ''ab'' st = (Inl ValueError, st)"
  "create_vector_store local_chroma CHROMA_DB_PATH [] st = (Inl ValueError, st)"
  by (simp_all add: create_vector_store_def get_or_create_collection_def local_chroma_def
      name_rule_def)

lemma create_vector_store_known:
  "st cname = Some es \<Longrightarrow> snd (create_vector_store rules db_path cname st) = st"
  by (simp add: create_vector_store_def get_or_create_collection_def
      split: option.splits)

text \<open>
  Distinct collection names are independent: adding entries under one reference changes
  no collection of another name.
\<close>

lemma collection_add_other:
  "n \<noteq> collection_name r \<Longrightarrow> collection_add r added st n = st n"
  by (auto simp add: collection_add_def split: option.splits)

text \<open>
  Cell 4 builds both indices over one storage context, hence over the one collection
  dictionary_food: whenever the cell runs through, whatever the documents and the database
  before, the two indices are the same index, and a search through either one ranges over
  the old entries of that collection followed by the cookbook's and then the dictionary's.
\<close>

lemma cell4_indices_one_store:
  "fst (cell4_indices rules cookbook_docs dictionary_docs st)
      = Inr (cookbook_index, dictionary_index)
   \<Longrightarrow> cookbook_index = dictionary_index"
  by (auto simp add: cell4_indices_def create_index_def split: prod.splits sum.splits)

lemma cell4_indices_entries:
  assumes "cell4_indices rules cookbook_docs dictionary_docs st
             = (Inr (cookbook_index, dictionary_index), st')"
  shows "searched_entries dictionary_index st'
           = (case st ''dictionary_food'' of None \<Rightarrow> [] | Some es \<Rightarrow> es)
               @ cookbook_docs @ dictionary_docs"
  using assms
  by (auto simp add: cell4_indices_def create_vector_store_def get_or_create_collection_def
      create_index_def collection_add_def searched_entries_def
      split: option.splits prod.splits sum.splits)

text \<open>
  The two tools built from these indices are therefore bound to one and the same query
  engine: Food_Cookbook and Food_Dictionary search the same entries.
\<close>

lemma notebook_tools_one_engine:
  assumes "fst (cell4_indices rules cookbook_docs dictionary_docs st)
             = Inr (cookbook_index, dictionary_index)"
  shows "map query_engine (notebook_tools cookbook_index dictionary_index)
           = [create_query_engine cookbook_index None, create_query_engine cookbook_index None]"
proof -
  from assms have "cookbook_index = dictionary_index"
    by (rule cell4_indices_one_store)
  then show ?thesis by (simp add: notebook_tools_def create_query_engine_tools_def)
qed

text \<open>
  C1 says that the cookbook and the dictionary are independent collections that share no
  storage, so that no chunk of one is reachable from a search on the other. Cell 4 run
  on one cookbook document and one dictionary document, in a database with no collection:
  the cell runs through, the cookbook index and the dictionary index have the same storage
  context, and a search through the dictionary index ranges over the cookbook's document
  as well (and the other way round).
\<close>

theorem cell4_shared_collection:
  "(case cell4_indices local_chroma [''Marrow Dumpling Soup''] [''Aloo: potato'']
           no_collections of
      (Inl e, st) \<Rightarrow> False
    | (Inr (cookbook_index, dictionary_index), st) \<Rightarrow>
        context_of cookbook_index = context_of dictionary_index \<and>
        collection_name (collection_of (store_of (context_of cookbook_index)))
          = ''dictionary_food'' \<and>
        searched_entries dictionary_index st = [''Marrow Dumpling Soup'', ''Aloo: potato''] \<and>
        searched_entries cookbook_index st = [''Marrow Dumpling Soup'', ''Aloo: potato''])"
  by (simp add: cell4_indices_def create_vector_store_def get_or_create_collection_def
      create_index_def collection_add_def searched_entries_def no_collections_def
      local_chroma_accepts)

section \<open>The specification's vector index: properties\<close>

subsection \<open>Ranking\<close>

lemma mset_place: "mset (place x ys) = add_mset x (mset ys)"
  by (induction ys) simp_all

lemma mset_ranked: "mset (ranked xs) = mset xs"
  by (induction xs) (simp_all add: mset_place)

lemma length_ranked: "length (ranked xs) = length xs"
  using mset_ranked [of xs] by (metis size_mset)

lemma set_place: "set (place x ys) = insert x (set ys)"
  using mset_place [of x ys] by (metis set_mset_add_mset_insert set_mset_mset)

lemma descending_place: "descending ys \<Longrightarrow> descending (place x ys)"
proof (induction ys)
  case Nil
  then show ?case by (simp add: descending_def)
next
  case (Cons y ys)
  show ?case
  proof (cases "snd y \<le> snd x")
    case True
    with Cons.prems show ?thesis by (auto simp add: descending_def)
  next
    case False
    with Cons show ?thesis by (auto simp add: descending_def set_place)
  qed
qed

lemma descending_ranked: "descending (ranked xs)"
  by (induction xs) (simp_all add: descending_place, simp add: descending_def)

lemma ties_place:
  "filter (\<lambda>p. snd p = s) (place x ys) =
     (if snd x = s then x # filter (\<lambda>p. snd p = s) ys else filter (\<lambda>p. snd p = s) ys)"
  by (induction ys) auto

lemma ties_ranked: "filter (\<lambda>p. snd p = s) (ranked xs) = filter (\<lambda>p. snd p = s) xs"
  by (induction xs) (simp_all add: ties_place)

lemma descending_take: "descending xs \<Longrightarrow> descending (take k xs)"
  unfolding descending_def by (metis append_take_drop_id sorted_wrt_append)

text \<open>
  C6. For all \<open>k \<ge> 1\<close> and every non-empty collection, \<open>search\<close> succeeds and returns a
  sequence \<open>r\<close> of (chunk, score) pairs of length exactly \<open>min k (size of the collection)\<close>,
  so a \<open>k\<close> beyond the size is clamped and is no error. \<open>r\<close> is descending by score. It is
  the front of a descending arrangement \<open>r @ rest\<close> of all scored entries of the
  collection in which, for every score, the entries with that score stand in their
  original insertion order.
\<close>

theorem search_top_k:
  assumes "1 \<le> k" and "idx collection = Some es" and "es \<noteq> []"
  shows "\<exists>r rest. search similarity collection q k idx = Inr r \<and>
           length r = min k (length es) \<and>
           descending r \<and>
           descending (r @ rest) \<and>
           mset (r @ rest) = mset (scored similarity q es) \<and>
           (\<forall>s. filter (\<lambda>p. snd p = s) (r @ rest)
                  = filter (\<lambda>p. snd p = s) (scored similarity q es))"
proof -
  let ?all = "ranked (scored similarity q es)"
  have len: "length ?all = length es"
    by (simp add: length_ranked scored_def)
  have "search similarity collection q k idx = Inr (take k ?all)"
    using assms(2) by (simp add: search_def)
  moreover have "length (take k ?all) = min k (length es)"
    using len by simp
  moreover have "descending (take k ?all)"
    by (rule descending_take [OF descending_ranked])
  moreover have "descending (take k ?all @ drop k ?all)"
    by (simp add: descending_ranked)
  moreover have "mset (take k ?all @ drop k ?all) = mset (scored similarity q es)"
    by (simp add: mset_ranked del: mset_append)
  moreover have "\<forall>s. filter (\<lambda>p. snd p = s) (take k ?all @ drop k ?all)
                  = filter (\<lambda>p. snd p = s) (scored similarity q es)"
    by (simp add: ties_ranked del: filter_append)
  ultimately show ?thesis by blast
qed

lemma example_index_entries:
  "example_index ''dictionary''
     = Some [(aloo_chunk, 1), (aloo_chunk\<lparr>chunk_id := ''c2''\<rparr>, 4),
             (aloo_chunk\<lparr>chunk_id := ''c3''\<rparr>, 6)]"
  by (simp add: example_index_def upsert_def entries_def ids_def aloo_chunk_def)

text \<open>
  In the example index the chunks c2 and c3 are equally close to the query vector 5.
  With \<open>k = 2\<close> the two closest are returned, the earlier inserted first; with
  \<open>k = 5\<close>, more than the collection holds, all three are returned.
\<close>

theorem search_top_k_witness:
  "search closeness ''dictionary'' 5 2 example_index
     = Inr [(aloo_chunk\<lparr>chunk_id := ''c2''\<rparr>, - 1), (aloo_chunk\<lparr>chunk_id := ''c3''\<rparr>, - 1)] \<and>
   search closeness ''dictionary'' 5 5 example_index
     = Inr [(aloo_chunk\<lparr>chunk_id := ''c2''\<rparr>, - 1), (aloo_chunk\<lparr>chunk_id := ''c3''\<rparr>, - 1),
            (aloo_chunk, - 4)]"
  using
    search_top_k [of 2 example_index "''dictionary''"
      "[(aloo_chunk, 1), (aloo_chunk\<lparr>chunk_id := ''c2''\<rparr>, 4),
        (aloo_chunk\<lparr>chunk_id := ''c3''\<rparr>, 6)]" closeness 5]
    search_top_k [of 5 example_index "''dictionary''"
      "[(aloo_chunk, 1), (aloo_chunk\<lparr>chunk_id := ''c2''\<rparr>, 4),
        (aloo_chunk\<lparr>chunk_id := ''c3''\<rparr>, 6)]" closeness 5]
  by (simp add: search_def scored_def closeness_def example_index_entries)

subsection \<open>Upsert\<close>

lemma revector_hit: "chunk_id (fst e) = i \<Longrightarrow> revector i v e = (fst e, v)"
  by (simp add: revector_def)

lemma revector_miss: "chunk_id (fst e) \<noteq> i \<Longrightarrow> revector i v e = e"
  by (simp add: revector_def)

lemma ids_revector: "ids (map (revector i v) es) = ids es"
  by (induction es) (simp_all add: ids_def revector_def)

lemma revector_absent: "i \<notin> set (ids es) \<Longrightarrow> map (revector i v) es = es"
  by (induction es) (auto simp add: ids_def revector_def)

lemma revector_twice: "map (revector i v) (map (revector i v) es) = map (revector i v) es"
  by (induction es) (simp_all add: revector_def)

lemma filter_absent: "i \<notin> set (ids es) \<Longrightarrow> filter (\<lambda>e. chunk_id (fst e) = i) es = []"
  by (induction es) (auto simp add: ids_def)

lemma one_entry_after_revector:
  "distinct (ids es) \<Longrightarrow> i \<in> set (ids es) \<Longrightarrow>
     map snd (filter (\<lambda>e. chunk_id (fst e) = i) (map (revector i v) es)) = [v]"
proof (induction es)
  case Nil
  then show ?case by (simp add: ids_def)
next
  case (Cons e es)
  show ?case
  proof (cases "chunk_id (fst e) = i")
    case True
    with Cons.prems(1) have "i \<notin> set (ids es)" by (auto simp add: ids_def)
    then have "filter (\<lambda>e. chunk_id (fst e) = i) (map (revector i v) es) = []"
      by (simp add: revector_absent filter_absent)
    with True show ?thesis by (simp add: revector_hit)
  next
    case False
    with Cons.prems have "distinct (ids es)" and "i \<in> set (ids es)"
      by (auto simp add: ids_def)
    with Cons.IH False show ?thesis by (simp add: revector_miss)
  qed
qed

lemma entries_upsert_same:
  "entries (upsert col c v idx) col =
     (if chunk_id c \<in> set (ids (entries idx col))
      then map (revector (chunk_id c) v) (entries idx col)
      else entries idx col @ [(c, v)])"
  by (simp add: upsert_def entries_def Let_def)

lemma entries_upsert_other: "col' \<noteq> col \<Longrightarrow> entries (upsert col c v idx) col' = entries idx col'"
  by (simp add: upsert_def entries_def Let_def)

lemma upsert_defined: "upsert col c v idx col = Some (entries (upsert col c v idx) col)"
  by (simp add: upsert_def entries_def Let_def)

lemma id_present_after_upsert: "chunk_id c \<in> set (ids (entries (upsert col c v idx) col))"
  by (simp add: entries_upsert_same ids_revector) (simp add: ids_def)

lemma unique_ids_empty: "unique_ids Map.empty"
  by (simp add: unique_ids_def entries_def ids_def)

lemma unique_ids_upsert:
  assumes "unique_ids idx"
  shows "unique_ids (upsert col c v idx)"
  unfolding unique_ids_def
proof
  fix col'
  from assms have d: "distinct (ids (entries idx col'))" by (simp add: unique_ids_def)
  show "distinct (ids (entries (upsert col c v idx) col'))"
  proof (cases "col' = col")
    case False
    with d show ?thesis by (simp add: entries_upsert_other)
  next
    case True
    show ?thesis
    proof (cases "chunk_id c \<in> set (ids (entries idx col))")
      case present: True
      with d \<open>col' = col\<close> show ?thesis by (simp add: entries_upsert_same ids_revector)
    next
      case absent: False
      with d \<open>col' = col\<close> show ?thesis by (simp add: entries_upsert_same) (simp add: ids_def)
    qed
  qed
qed

lemma unique_ids_upsert_all: "unique_ids idx \<Longrightarrow> unique_ids (upsert_all ops idx)"
  by (induction ops idx rule: upsert_all.induct) (simp_all add: unique_ids_upsert)

lemma unique_ids_ingested: "unique_ids (upsert_all ops Map.empty)"
  by (rule unique_ids_upsert_all [OF unique_ids_empty])

lemma revector_fixes_upserted:
  "map (revector (chunk_id c) v) (entries (upsert col c v idx) col) = entries (upsert col c v idx) col"
proof (cases "chunk_id c \<in> set (ids (entries idx col))")
  case True
  then have "entries (upsert col c v idx) col = map (revector (chunk_id c) v) (entries idx col)"
    by (simp add: entries_upsert_same)
  then show ?thesis by (simp only: revector_twice)
next
  case False
  then show ?thesis by (simp add: entries_upsert_same revector_absent revector_hit)
qed

lemma upsert_idempotent: "upsert col c v (upsert col c v idx) = upsert col c v idx"
proof -
  have "upsert col c v (upsert col c v idx)
          = (upsert col c v idx)(col \<mapsto> entries (upsert col c v idx) col)"
    by (simp add: upsert_def [of col c v "upsert col c v idx"] Let_def
        id_present_after_upsert revector_fixes_upserted)
  also have "\<dots> = upsert col c v idx"
    using upsert_defined [of col c v idx] by (simp add: fun_upd_idem)
  finally show ?thesis .
qed

text \<open>
  C7. For every index built by upserts (no id stored twice), every collection and every
  chunk id: an upsert of that id with \<open>v1\<close> followed by an upsert of the same id with
  \<open>v2\<close> leaves exactly one entry for the id in the collection, and it carries \<open>v2\<close>. A
  re-upsert replaces and never duplicates; a second upsert with the same vector changes
  nothing.
\<close>

theorem upsert_twice_one_entry:
  assumes "unique_ids idx" and "chunk_id c2 = chunk_id c1"
  shows "\<exists>es. upsert col c2 v2 (upsert col c1 v1 idx) col = Some es \<and>
           map snd (filter (\<lambda>e. chunk_id (fst e) = chunk_id c1) es) = [v2] \<and>
           upsert col c1 v2 (upsert col c1 v2 idx) = upsert col c1 v2 idx"
proof -
  let ?one = "upsert col c1 v1 idx"
  have d1: "distinct (ids (entries ?one col))"
    using unique_ids_upsert [OF assms(1), of col c1 v1] by (simp add: unique_ids_def)
  have in1: "chunk_id c1 \<in> set (ids (entries ?one col))"
    by (rule id_present_after_upsert)
  have second: "entries (upsert col c2 v2 ?one) col = map (revector (chunk_id c1) v2) (entries ?one col)"
    using in1 assms(2) by (simp add: entries_upsert_same [of col c2 v2 ?one])
  have one: "map snd (filter (\<lambda>e. chunk_id (fst e) = chunk_id c1) (entries (upsert col c2 v2 ?one) col)) = [v2]"
    unfolding second by (rule one_entry_after_revector [OF d1 in1])
  show ?thesis
  proof (intro exI conjI)
    show "upsert col c2 v2 ?one col = Some (entries (upsert col c2 v2 ?one) col)"
      by (rule upsert_defined)
    show "map snd (filter (\<lambda>e. chunk_id (fst e) = chunk_id c1) (entries (upsert col c2 v2 ?one) col)) = [v2]"
      by (rule one)
    show "upsert col c1 v2 (upsert col c1 v2 idx) = upsert col c1 v2 idx"
      by (rule upsert_idempotent)
  qed
qed

theorem upsert_twice_one_entry_witness:
  "unique_ids (Map.empty :: int vector_index) \<and>
   upsert ''dictionary'' aloo_chunk 7 (upsert ''dictionary'' aloo_chunk (3::int) Map.empty) ''dictionary''
     = Some [(aloo_chunk, 7)]"
  using upsert_twice_one_entry [of "Map.empty :: int vector_index" aloo_chunk aloo_chunk "''dictionary''" 7 3]
  by (simp add: unique_ids_empty upsert_def entries_def ids_def revector_def)

end
